theory Spec2Isabelle
  imports Complex_Main "HOL-Library.Word" "HOL-Library.Monad_Syntax"
begin

unbundle bit_operations_syntax

section \<open>Webhook signature verification (src/lib/shopify.ts)\<close>

text \<open>
  \<^verbatim>\<open>verifyWebhookSignature\<close> calls Node's \<^verbatim>\<open>crypto\<close> module:
  \<^verbatim>\<open>createHmac('sha256', secret)\<close>, \<^verbatim>\<open>digest('base64')\<close> and
  \<^verbatim>\<open>timingSafeEqual\<close>. Those library functions are written out here from their
  standards (SHA-256: FIPS 180-4; HMAC: RFC 2104; base64: RFC 4648), on bytes.
  A JavaScript string is represented by the list of the bytes of its UTF-8 encoding, one
  \<^typ>\<open>char\<close> per byte: that is what \<^verbatim>\<open>hmac.update(data, 'utf8')\<close> and
  \<^verbatim>\<open>Buffer.from(signature)\<close> read.
\<close>

type_synonym byte = "8 word"
type_synonym u32 = "32 word"

definition byte_of_char :: "char \<Rightarrow> byte" where
  "byte_of_char c = word_of_nat (of_char c)"

definition utf8 :: "string \<Rightarrow> byte list" where
  "utf8 s = map byte_of_char s"

subsection \<open>SHA-256\<close>

definition Ch :: "u32 \<Rightarrow> u32 \<Rightarrow> u32 \<Rightarrow> u32" where
  "Ch x y z = (x AND y) XOR (NOT x AND z)"

definition Maj :: "u32 \<Rightarrow> u32 \<Rightarrow> u32 \<Rightarrow> u32" where
  "Maj x y z = (x AND y) XOR (x AND z) XOR (y AND z)"

definition bsig0 :: "u32 \<Rightarrow> u32" where
  "bsig0 x = word_rotr 2 x XOR word_rotr 13 x XOR word_rotr 22 x"

definition bsig1 :: "u32 \<Rightarrow> u32" where
  "bsig1 x = word_rotr 6 x XOR word_rotr 11 x XOR word_rotr 25 x"

definition ssig0 :: "u32 \<Rightarrow> u32" where
  "ssig0 x = word_rotr 7 x XOR word_rotr 18 x XOR drop_bit 3 x"

definition ssig1 :: "u32 \<Rightarrow> u32" where
  "ssig1 x = word_rotr 17 x XOR word_rotr 19 x XOR drop_bit 10 x"

definition sha256_K :: "u32 list" where
  "sha256_K =
   [0x428A2F98, 0x71374491, 0xB5C0FBCF, 0xE9B5DBA5, 0x3956C25B, 0x59F111F1,
    0x923F82A4, 0xAB1C5ED5, 0xD807AA98, 0x12835B01, 0x243185BE, 0x550C7DC3,
    0x72BE5D74, 0x80DEB1FE, 0x9BDC06A7, 0xC19BF174, 0xE49B69C1, 0xEFBE4786,
    0x0FC19DC6, 0x240CA1CC, 0x2DE92C6F, 0x4A7484AA, 0x5CB0A9DC, 0x76F988DA,
    0x983E5152, 0xA831C66D, 0xB00327C8, 0xBF597FC7, 0xC6E00BF3, 0xD5A79147,
    0x06CA6351, 0x14292967, 0x27B70A85, 0x2E1B2138, 0x4D2C6DFC, 0x53380D13,
    0x650A7354, 0x766A0ABB, 0x81C2C92E, 0x92722C85, 0xA2BFE8A1, 0xA81A664B,
    0xC24B8B70, 0xC76C51A3, 0xD192E819, 0xD6990624, 0xF40E3585, 0x106AA070,
    0x19A4C116, 0x1E376C08, 0x2748774C, 0x34B0BCB5, 0x391C0CB3, 0x4ED8AA4A,
    0x5B9CCA4F, 0x682E6FF3, 0x748F82EE, 0x78A5636F, 0x84C87814, 0x8CC70208,
    0x90BEFFFA, 0xA4506CEB, 0xBEF9A3F7, 0xC67178F2]"

text \<open>The eight working variables \<open>a \<dots> h\<close>, and the hash value, as a tuple.\<close>

type_synonym sha_state = "u32 \<times> u32 \<times> u32 \<times> u32 \<times> u32 \<times> u32 \<times> u32 \<times> u32"

definition sha256_H0 :: sha_state where
  "sha256_H0 = (0x6A09E667, 0xBB67AE85, 0x3C6EF372, 0xA54FF53A,
                0x510E527F, 0x9B05688C, 0x1F83D9AB, 0x5BE0CD19)"

definition be32 :: "byte \<Rightarrow> byte \<Rightarrow> byte \<Rightarrow> byte \<Rightarrow> u32" where
  "be32 a b c d =
     push_bit 24 (ucast a) OR push_bit 16 (ucast b) OR push_bit 8 (ucast c) OR ucast d"

definition u32_bytes :: "u32 \<Rightarrow> byte list" where
  "u32_bytes w = [ucast (drop_bit 24 w), ucast (drop_bit 16 w), ucast (drop_bit 8 w), ucast w]"

definition u64_bytes :: "64 word \<Rightarrow> byte list" where
  "u64_bytes w = map (\<lambda>i. ucast (drop_bit (8 * (7 - i)) w)) [0..<8]"

text \<open>Padding: a one bit, zero bits up to 56 modulo 64 bytes, the bit length on 64 bits.\<close>

definition sha256_pad :: "byte list \<Rightarrow> byte list" where
  "sha256_pad m =
     m @ [0x80] @ replicate ((119 - length m mod 64) mod 64) 0
       @ u64_bytes (word_of_nat (8 * length m))"

fun be_words :: "byte list \<Rightarrow> u32 list" where
  "be_words (a # b # c # d # rest) = be32 a b c d # be_words rest"
| "be_words _ = []"

text \<open>The message schedule: \<open>n\<close> more words after the ones already in \<open>w\<close>.\<close>

fun schedule :: "nat \<Rightarrow> u32 list \<Rightarrow> u32 list" where
  "schedule 0 w = w"
| "schedule (Suc n) w =
     (let t = length w in
      schedule n (w @ [ssig1 (w ! (t - 2)) + w ! (t - 7) + ssig0 (w ! (t - 15)) + w ! (t - 16)]))"

definition sha_round :: "sha_state \<Rightarrow> u32 \<times> u32 \<Rightarrow> sha_state" where
  "sha_round s kw =
     (case s of (a, b, c, d, e, f, g, h) \<Rightarrow>
        let t1 = h + bsig1 e + Ch e f g + fst kw + snd kw;
            t2 = bsig0 a + Maj a b c
        in (t1 + t2, a, b, c, d + t1, e, f, g))"

definition sha_add :: "sha_state \<Rightarrow> sha_state \<Rightarrow> sha_state" where
  "sha_add s s' =
     (case s of (a, b, c, d, e, f, g, h) \<Rightarrow>
      case s' of (a', b', c', d', e', f', g', h') \<Rightarrow>
        (a + a', b + b', c + c', d + d', e + e', f + f', g + g', h + h'))"

definition sha256_block :: "sha_state \<Rightarrow> byte list \<Rightarrow> sha_state" where
  "sha256_block s blk =
     sha_add s (foldl sha_round s (zip sha256_K (schedule 48 (be_words blk))))"

fun sha256_blocks :: "nat \<Rightarrow> sha_state \<Rightarrow> byte list \<Rightarrow> sha_state" where
  "sha256_blocks 0 s m = s"
| "sha256_blocks (Suc n) s m = sha256_blocks n (sha256_block s (take 64 m)) (drop 64 m)"

definition sha_state_bytes :: "sha_state \<Rightarrow> byte list" where
  "sha_state_bytes s =
     (case s of (a, b, c, d, e, f, g, h) \<Rightarrow>
        u32_bytes a @ u32_bytes b @ u32_bytes c @ u32_bytes d @
        u32_bytes e @ u32_bytes f @ u32_bytes g @ u32_bytes h)"

definition sha256 :: "byte list \<Rightarrow> byte list" where
  "sha256 m =
     (let p = sha256_pad m in sha_state_bytes (sha256_blocks (length p div 64) sha256_H0 p))"

subsection \<open>HMAC-SHA256 and base64\<close>

text \<open>
  RFC 2104 with block size 64: a key longer than a block is hashed first, then the key is
  filled with zero bytes up to the block size.
\<close>

definition hmac_key_block :: "byte list \<Rightarrow> byte list" where
  "hmac_key_block k =
     (let k' = (if length k > 64 then sha256 k else k) in k' @ replicate (64 - length k') 0)"

definition hmac_sha256 :: "byte list \<Rightarrow> byte list \<Rightarrow> byte list" where
  "hmac_sha256 k m =
     (let k0 = hmac_key_block k in
      sha256 (map (\<lambda>b. b XOR 0x5c) k0 @ sha256 (map (\<lambda>b. b XOR 0x36) k0 @ m)))"

definition b64_alphabet :: string where
  "b64_alphabet = ''ABCDEFGHIJKLMNOPQRSTUVWXYZabcdefghijklmnopqrstuvwxyz0123456789+/''"

definition b64_char :: "byte \<Rightarrow> char" where
  "b64_char n = b64_alphabet ! unat (n AND 0x3f)"

fun base64 :: "byte list \<Rightarrow> string" where
  "base64 [] = []"
| "base64 [a] =
     [b64_char (drop_bit 2 a), b64_char (push_bit 4 (a AND 3)), CHR ''='', CHR ''='']"
| "base64 [a, b] =
     [b64_char (drop_bit 2 a), b64_char (push_bit 4 (a AND 3) OR drop_bit 4 b),
      b64_char (push_bit 2 (b AND 15)), CHR ''='']"
| "base64 (a # b # c # rest) =
     [b64_char (drop_bit 2 a), b64_char (push_bit 4 (a AND 3) OR drop_bit 4 b),
      b64_char (push_bit 2 (b AND 15) OR drop_bit 6 c), b64_char c] @ base64 rest"

subsection \<open>verifyWebhookSignature\<close>

datatype js_error = RangeError | TypeError | SyntaxError | PrismaError

text \<open>
  \<^verbatim>\<open>crypto.timingSafeEqual(a, b)\<close> throws a RangeError when the two buffers differ in
  byte length, and otherwise tells whether they hold the same bytes.
\<close>

definition timingSafeEqual :: "byte list \<Rightarrow> byte list \<Rightarrow> js_error + bool" where
  "timingSafeEqual a b = (if length a \<noteq> length b then Inl RangeError else Inr (a = b))"

text \<open>
  \<^verbatim>\<open>hmac.digest('base64')\<close> of the payload under a secret: what the sender of a webhook
  puts in the signature header.
\<close>

definition hmac_base64 :: "string \<Rightarrow> string \<Rightarrow> string" where
  "hmac_base64 secret data = base64 (hmac_sha256 (utf8 secret) (utf8 data))"

text \<open>
  \<open>secret\<close> is \<^verbatim>\<open>process.env.SHOPIFY_API_SECRET\<close>; the module refuses to load
  (lines 14-22) when it is missing or empty.
\<close>

definition verifyWebhookSignature :: "string \<Rightarrow> string \<Rightarrow> string \<Rightarrow> js_error + bool" where
  "verifyWebhookSignature secret data signature =
     (let hash = hmac_base64 secret data
      in timingSafeEqual (utf8 hash) (utf8 signature))"

section \<open>Data model\<close>

datatype sub_status = PENDING | ACTIVE | CANCELLED | EXPIRED | FROZEN | PAUSED

fun status_name :: "sub_status \<Rightarrow> string" where
  "status_name PENDING = ''PENDING''"
| "status_name ACTIVE = ''ACTIVE''"
| "status_name CANCELLED = ''CANCELLED''"
| "status_name EXPIRED = ''EXPIRED''"
| "status_name FROZEN = ''FROZEN''"
| "status_name PAUSED = ''PAUSED''"

text \<open>
  JSON values: request and response bodies, and the free-form \<^verbatim>\<open>details\<close> of an audit
  entry. \<open>JDate\<close> is a point in time (a \<^verbatim>\<open>Date\<close>, or its ISO string), in
  milliseconds. A property whose value is \<^verbatim>\<open>undefined\<close> is written \<open>JNull\<close>.
\<close>

datatype json =
    JNull
  | JBool bool
  | JNum rat
  | JStr string
  | JDate nat
  | JArr "json list"
  | JObj "(string \<times> json) list"

fun opt_str :: "string option \<Rightarrow> json" where
  "opt_str None = JNull"
| "opt_str (Some s) = JStr s"

text \<open>The validated popup settings: the ten fields of \<^verbatim>\<open>popupSettingsSchema\<close>.\<close>

record popupSettings =
  message :: string
  linkUrl :: string
  position :: string
  maxWidth :: rat
  padding :: rat
  zIndex :: rat
  dismissible :: bool
  bgColor :: string
  textColor :: string
  linkColor :: string

definition popup_json :: "popupSettings \<Rightarrow> json" where
  "popup_json p = JObj
     [(''message'', JStr (message p)), (''linkUrl'', JStr (linkUrl p)),
      (''position'', JStr (position p)), (''maxWidth'', JNum (maxWidth p)),
      (''padding'', JNum (padding p)), (''zIndex'', JNum (zIndex p)),
      (''dismissible'', JBool (dismissible p)), (''bgColor'', JStr (bgColor p)),
      (''textColor'', JStr (textColor p)), (''linkColor'', JStr (linkColor p))]"

text \<open>
  The rows of the five tables. Of a shop only the columns these handlers read are kept
  (its id and its domain); row ids are the strings the database hands out.
\<close>

record shop_row =
  shop_id :: string
  shopifyDomain :: string

record subscription_row =
  sub_id :: string
  sub_shopId :: string
  shopifySubscriptionId :: string
  sub_name :: string
  sub_status :: sub_status
  sub_price :: rat
  sub_currency :: string
  sub_interval :: string
  sub_trialEnd :: "nat option"
  sub_currentPeriodEnd :: "string option"
  sub_test :: bool
  sub_createdAt :: nat
  sub_updatedAt :: nat

datatype setting_value = PopupSettings popupSettings | JsonValue json

record setting_row =
  set_shopId :: string
  set_key :: string
  set_value :: setting_value

record audit_row =
  log_shopId :: string
  log_action :: string
  log_resource :: "string option"
  log_resourceId :: "string option"
  log_details :: "(string \<times> json) list"
  log_userAgent :: "string option"
  log_ipAddress :: "string option"

record session_row =
  session_id :: string
  session_shop :: string

record db_state =
  shops :: "shop_row list"
  subscriptions :: "subscription_row list"
  settings :: "setting_row list"
  auditLogs :: "audit_row list"
  sessions :: "session_row list"

section \<open>Database helpers (src/lib/db.ts)\<close>

text \<open>
  The object exported as \<^verbatim>\<open>db\<close> (lines 22-296) is an object literal with exactly
  these members. The Prisma client is the module's other export, \<^verbatim>\<open>prisma\<close>; it is
  not a member of \<^verbatim>\<open>db\<close>.
\<close>

definition db_members :: "string list" where
  "db_members =
     [''findShopByDomain'', ''createOrUpdateShop'', ''getActiveSubscription'',
      ''createSubscription'', ''updateSubscriptionStatus'', ''getShopSettings'',
      ''updateShopSettings'', ''createAuditLog'', ''getAuditLogs'', ''findSession'',
      ''storeSession'', ''deleteSession'', ''deleteSessionsByShop'',
      ''cleanupExpiredSessions'', ''cleanupShopData'']"

text \<open>
  What every object literal inherits from \<^verbatim>\<open>Object.prototype\<close>: a lookup of one of
  these names on an object that does not define it yields a function (or, for
  \<^verbatim>\<open>__proto__\<close>, the prototype object), which is truthy.
\<close>

definition Object_prototype_members :: "string list" where
  "Object_prototype_members =
     [''constructor'', ''hasOwnProperty'', ''isPrototypeOf'', ''propertyIsEnumerable'',
      ''toLocaleString'', ''toString'', ''valueOf'', ''__proto__'', ''__defineGetter__'',
      ''__defineSetter__'', ''__lookupGetter__'', ''__lookupSetter__'']"

text \<open>\<^verbatim>\<open>db.m\<close>: whether the lookup of member \<open>m\<close> on \<^verbatim>\<open>db\<close> is defined.\<close>

definition db_has_member :: "string \<Rightarrow> bool" where
  "db_has_member m = (m \<in> set db_members \<or> m \<in> set Object_prototype_members)"

definition findShopByDomain :: "string \<Rightarrow> db_state \<Rightarrow> shop_row option" where
  "findShopByDomain domain st = find (\<lambda>s. shopifyDomain s = domain) (shops st)"

text \<open>\<^verbatim>\<open>orderBy: { createdAt: 'desc' }\<close>, first row: a row created latest.\<close>

fun newest :: "subscription_row list \<Rightarrow> subscription_row option" where
  "newest [] = None"
| "newest (x # xs) =
     (case newest xs of
        None \<Rightarrow> Some x
      | Some y \<Rightarrow> if sub_createdAt x < sub_createdAt y then Some y else Some x)"

definition getActiveSubscription :: "string \<Rightarrow> db_state \<Rightarrow> subscription_row option" where
  "getActiveSubscription shopId st =
     newest (filter (\<lambda>s. sub_shopId s = shopId \<and> sub_status s = ACTIVE) (subscriptions st))"

text \<open>
  \<^verbatim>\<open>shopifySubscriptionId\<close> is a unique key (it is what \<^verbatim>\<open>findUnique\<close> and
  \<^verbatim>\<open>update\<close> select by), so creating a second row with the same value is rejected.
\<close>

definition findSubscription :: "string \<Rightarrow> db_state \<Rightarrow> subscription_row option" where
  "findSubscription sid st = find (\<lambda>s. shopifySubscriptionId s = sid) (subscriptions st)"

definition createSubscription ::
  "subscription_row \<Rightarrow> db_state \<Rightarrow> js_error + subscription_row \<times> db_state" where
  "createSubscription row st =
     (case findSubscription (shopifySubscriptionId row) st of
        Some _ \<Rightarrow> Inl PrismaError
      | None \<Rightarrow> Inr (row, st\<lparr>subscriptions := subscriptions st @ [row]\<rparr>))"

definition updateSubscriptionStatus ::
  "string \<Rightarrow> sub_status \<Rightarrow> nat \<Rightarrow> db_state \<Rightarrow> js_error + subscription_row \<times> db_state" where
  "updateSubscriptionStatus sid status now st =
     (case findSubscription sid st of
        None \<Rightarrow> Inl PrismaError
      | Some row \<Rightarrow>
          Inr (row\<lparr>sub_status := status, sub_updatedAt := now\<rparr>,
               st\<lparr>subscriptions :=
                    map (\<lambda>s. if shopifySubscriptionId s = sid
                              then s\<lparr>sub_status := status, sub_updatedAt := now\<rparr> else s)
                        (subscriptions st)\<rparr>))"

definition getShopSettings :: "string \<Rightarrow> string \<Rightarrow> db_state \<Rightarrow> setting_value option" where
  "getShopSettings shopId key st =
     map_option set_value (find (\<lambda>r. set_shopId r = shopId \<and> set_key r = key) (settings st))"

definition updateShopSettings :: "string \<Rightarrow> string \<Rightarrow> setting_value \<Rightarrow> db_state \<Rightarrow> db_state" where
  "updateShopSettings shopId key v st =
     (case find (\<lambda>r. set_shopId r = shopId \<and> set_key r = key) (settings st) of
        Some _ \<Rightarrow>
          st\<lparr>settings :=
               map (\<lambda>r. if set_shopId r = shopId \<and> set_key r = key then r\<lparr>set_value := v\<rparr> else r)
                   (settings st)\<rparr>
      | None \<Rightarrow>
          st\<lparr>settings := settings st @ [\<lparr>set_shopId = shopId, set_key = key, set_value = v\<rparr>]\<rparr>)"

definition createAuditLog :: "audit_row \<Rightarrow> db_state \<Rightarrow> db_state" where
  "createAuditLog row st = st\<lparr>auditLogs := auditLogs st @ [row]\<rparr>"

definition deleteSessionsByShop :: "string \<Rightarrow> db_state \<Rightarrow> db_state" where
  "deleteSessionsByShop shop st = st\<lparr>sessions := filter (\<lambda>r. session_shop r \<noteq> shop) (sessions st)\<rparr>"

text \<open>
  The database calls of the uninstall handler, in program order. Any of them can reject
  (the connection drops, the database refuses the statement); \<open>fails c\<close> says whether call
  \<open>c\<close> rejects in this run. A call that rejects has no effect.
\<close>

datatype db_call =
    AuditUninstalled
  | DeleteSessions
  | DeleteAuditLogs
  | DeleteSettings
  | DeleteSubscriptions
  | DeleteShop
  | AuditCleanupFailed

text \<open>
  \<^verbatim>\<open>cleanupShopData\<close>: four statements, one after the other, outside any transaction.
  The result is the error of the first statement that rejects, if any, and the state the
  statements before it left. \<^verbatim>\<open>shop.delete\<close> also rejects when the row is not there.
\<close>

definition cleanupShopData ::
  "(db_call \<Rightarrow> bool) \<Rightarrow> string \<Rightarrow> db_state \<Rightarrow> js_error option \<times> db_state" where
  "cleanupShopData fails shopId st =
     (if fails DeleteAuditLogs then (Some PrismaError, st) else
      let st1 = st\<lparr>auditLogs := filter (\<lambda>r. log_shopId r \<noteq> shopId) (auditLogs st)\<rparr> in
      if fails DeleteSettings then (Some PrismaError, st1) else
      let st2 = st1\<lparr>settings := filter (\<lambda>r. set_shopId r \<noteq> shopId) (settings st1)\<rparr> in
      if fails DeleteSubscriptions then (Some PrismaError, st2) else
      let st3 = st2\<lparr>subscriptions := filter (\<lambda>r. sub_shopId r \<noteq> shopId) (subscriptions st2)\<rparr> in
      if fails DeleteShop \<or> find (\<lambda>r. shop_id r = shopId) (shops st3) = None
      then (Some PrismaError, st3)
      else (None, st3\<lparr>shops := filter (\<lambda>r. shop_id r \<noteq> shopId) (shops st3)\<rparr>))"

section \<open>Requests and responses\<close>

text \<open>
  What the handlers read of a request: the \<^verbatim>\<open>shop\<close> query parameter, the raw body and
  four headers (\<open>None\<close> when absent). A response is its HTTP status and the members of its
  JSON body.
\<close>

record request =
  url_shop :: "string option"
  body_text :: string
  hmac_header :: "string option"
  user_agent :: "string option"
  x_forwarded_for :: "string option"
  x_real_ip :: "string option"

datatype response = Response nat "(string \<times> json) list"

definition error_response :: "nat \<Rightarrow> string \<Rightarrow> response" where
  "error_response code msg = Response code [(''error'', JStr msg)]"

text \<open>\<^verbatim>\<open>a || b\<close> on strings that may be absent: the empty string is falsy.\<close>

fun or_else :: "string option \<Rightarrow> string option \<Rightarrow> string option" where
  "or_else (Some s) b = (if s = [] then b else Some s)"
| "or_else None b = b"

definition req_userAgent :: "request \<Rightarrow> string option" where
  "req_userAgent req = or_else (user_agent req) None"

definition req_ipAddress :: "request \<Rightarrow> string option" where
  "req_ipAddress req = or_else (x_forwarded_for req) (or_else (x_real_ip req) (Some ''unknown''))"

text \<open>\<^verbatim>\<open>array.map(e => e.message).join(', ')\<close>\<close>

fun join :: "string \<Rightarrow> string list \<Rightarrow> string" where
  "join sep [] = []"
| "join sep [x] = x"
| "join sep (x # y # ys) = x @ sep @ join sep (y # ys)"

section \<open>Uninstall webhook (src/app/api/webhooks/app/uninstalled/route.ts)\<close>

text \<open>
  The fields the handler reads of the parsed body. The parser is a parameter of the
  handler: \<open>None\<close> when \<^verbatim>\<open>JSON.parse\<close> throws or the value has no properties to read.
\<close>

record uninstall_event =
  ue_myshopify_domain :: "string option"
  ue_domain :: "string option"
  ue_id :: json

definition uninstalled_entry :: "nat \<Rightarrow> request \<Rightarrow> uninstall_event \<Rightarrow> string \<Rightarrow> string \<Rightarrow> audit_row" where
  "uninstalled_entry now req ev shopDomain shopId =
     \<lparr>log_shopId = shopId, log_action = ''app_uninstalled'', log_resource = Some ''app'',
      log_resourceId = None,
      log_details = [(''shopDomain'', JStr shopDomain), (''webhookId'', ue_id ev),
                     (''uninstalledAt'', JDate now)],
      log_userAgent = req_userAgent req, log_ipAddress = req_ipAddress req\<rparr>"

text \<open>The text of \<^verbatim>\<open>cleanupError.message\<close>, abridged to the kind of the error.\<close>

fun error_message :: "js_error \<Rightarrow> string" where
  "error_message RangeError = ''RangeError''"
| "error_message TypeError = ''TypeError''"
| "error_message SyntaxError = ''SyntaxError''"
| "error_message PrismaError = ''PrismaError''"

definition cleanup_failed_entry :: "js_error \<Rightarrow> string \<Rightarrow> string \<Rightarrow> audit_row" where
  "cleanup_failed_entry cleanupError shopDomain shopId =
     \<lparr>log_shopId = shopId, log_action = ''cleanup_failed'', log_resource = Some ''app'',
      log_resourceId = None,
      log_details = [(''shopDomain'', JStr shopDomain),
                     (''error'', JStr (error_message cleanupError))],
      log_userAgent = None, log_ipAddress = None\<rparr>"

text \<open>The \<^verbatim>\<open>try\<close> block of lines 60-67: the sessions first, then the shop's data.\<close>

definition purge :: "(db_call \<Rightarrow> bool) \<Rightarrow> string \<Rightarrow> string \<Rightarrow> db_state \<Rightarrow> js_error option \<times> db_state" where
  "purge fails shopDomain shopId st =
     (if fails DeleteSessions then (Some PrismaError, st)
      else cleanupShopData fails shopId (deleteSessionsByShop shopDomain st))"

definition uninstall_success :: response where
  "uninstall_success =
     Response 200 [(''success'', JBool True), (''message'', JStr ''App uninstalled and data cleaned up'')]"

definition POST_app_uninstalled ::
  "string \<Rightarrow> (string \<Rightarrow> uninstall_event option) \<Rightarrow> (db_call \<Rightarrow> bool) \<Rightarrow> nat \<Rightarrow> request \<Rightarrow> db_state
     \<Rightarrow> response \<times> db_state" where
  "POST_app_uninstalled secret parse fails now req st =
     (case or_else (hmac_header req) None of
        None \<Rightarrow> (error_response 401 ''Missing webhook signature'', st)
      | Some signature \<Rightarrow>
     (case verifyWebhookSignature secret (body_text req) signature of
        Inl e \<Rightarrow> (error_response 500 ''Failed to process app uninstalled webhook'', st)
      | Inr False \<Rightarrow> (error_response 401 ''Invalid webhook signature'', st)
      | Inr True \<Rightarrow>
     (case parse (body_text req) of
        None \<Rightarrow> (error_response 500 ''Failed to process app uninstalled webhook'', st)
      | Some webhookData \<Rightarrow>
     (case or_else (ue_myshopify_domain webhookData) (ue_domain webhookData) of
        None \<Rightarrow> (error_response 400 ''Missing shop domain in webhook'', st)
      | Some shopDomain \<Rightarrow>
     (case findShopByDomain shopDomain st of
        None \<Rightarrow> (Response 200 [(''success'', JBool True)], st)
      | Some shop \<Rightarrow>
          if fails AuditUninstalled
          then (error_response 500 ''Failed to process app uninstalled webhook'', st)
          else
            let st1 = createAuditLog (uninstalled_entry now req webhookData shopDomain (shop_id shop)) st
            in (case purge fails shopDomain (shop_id shop) st1 of
                  (None, st2) \<Rightarrow> (uninstall_success, st2)
                | (Some cleanupError, st2) \<Rightarrow>
                    (uninstall_success,
                     if fails AuditCleanupFailed then st2
                     else createAuditLog (cleanup_failed_entry cleanupError shopDomain (shop_id shop)) st2)))))))"

section \<open>Subscription update webhook (src/unnamed/part_007, lines 121-263)\<close>

text \<open>
  The fields the handler reads of the parsed body, after the coercions JavaScript applies
  where they are used: \<open>se_id\<close> is the text \<^verbatim>\<open>${subscriptionData.id}\<close> renders,
  \<open>se_status\<close> the property key \<^verbatim>\<open>subscriptionData.status\<close> stands for, and
  \<open>se_billing_on\<close> is \<open>None\<close> when \<^verbatim>\<open>billing_on\<close> is missing or falsy.
\<close>

record subscription_event =
  se_id :: string
  se_status :: string
  se_billing_on :: "string option"
  se_name :: json
  se_created_at :: json
  se_updated_at :: json

definition statusMapping :: "(string \<times> sub_status) list" where
  "statusMapping =
     [(''pending'', PENDING), (''active'', ACTIVE), (''cancelled'', CANCELLED),
      (''expired'', EXPIRED), (''frozen'', FROZEN), (''paused'', PAUSED),
      (''declined'', CANCELLED)]"

text \<open>
  \<^verbatim>\<open>statusMapping[key] || 'PENDING'\<close>. \<^verbatim>\<open>statusMapping\<close> is an object literal, so
  a key it does not define is looked up on \<^verbatim>\<open>Object.prototype\<close>: for the names that
  has, the lookup yields that (truthy) member and the fallback is not taken.
\<close>

datatype mapped = Status sub_status | Prototype_member string

definition newStatus_of :: "string \<Rightarrow> mapped" where
  "newStatus_of key =
     (case map_of statusMapping key of
        Some s \<Rightarrow> Status s
      | None \<Rightarrow> if key \<in> set Object_prototype_members then Prototype_member key
                else Status PENDING)"

definition subscription_updated_entry ::
  "request \<Rightarrow> subscription_event \<Rightarrow> subscription_row \<Rightarrow> string \<Rightarrow> sub_status \<Rightarrow> audit_row" where
  "subscription_updated_entry req ev subscription sid newStatus =
     \<lparr>log_shopId = sub_shopId subscription, log_action = ''subscription_updated'',
      log_resource = Some ''subscription'', log_resourceId = Some (sub_id subscription),
      log_details =
        [(''shopifySubscriptionId'', JStr sid),
         (''oldStatus'', JStr (status_name (sub_status subscription))),
         (''newStatus'', JStr (status_name newStatus)),
         (''billingOn'', opt_str (se_billing_on ev)),
         (''webhookData'', JObj [(''id'', JStr (se_id ev)), (''name'', se_name ev),
                                  (''status'', JStr (se_status ev)),
                                  (''created_at'', se_created_at ev),
                                  (''updated_at'', se_updated_at ev)])],
      log_userAgent = req_userAgent req, log_ipAddress = req_ipAddress req\<rparr>"

definition subscription_activated_entry :: "nat \<Rightarrow> subscription_row \<Rightarrow> string \<Rightarrow> audit_row" where
  "subscription_activated_entry now subscription sid =
     \<lparr>log_shopId = sub_shopId subscription, log_action = ''subscription_activated'',
      log_resource = Some ''subscription'', log_resourceId = Some (sub_id subscription),
      log_details =
        [(''shopifySubscriptionId'', JStr sid), (''activatedAt'', JDate now),
         (''plan'', JStr (sub_name subscription)), (''price'', JNum (sub_price subscription))],
      log_userAgent = None, log_ipAddress = None\<rparr>"

definition subscription_cancelled_by_shopify_entry :: "nat \<Rightarrow> subscription_row \<Rightarrow> string \<Rightarrow> audit_row" where
  "subscription_cancelled_by_shopify_entry now subscription sid =
     \<lparr>log_shopId = sub_shopId subscription, log_action = ''subscription_cancelled_by_shopify'',
      log_resource = Some ''subscription'', log_resourceId = Some (sub_id subscription),
      log_details =
        [(''shopifySubscriptionId'', JStr sid), (''cancelledAt'', JDate now),
         (''reason'', JStr ''shopify_webhook'')],
      log_userAgent = None, log_ipAddress = None\<rparr>"

definition subscription_update_failed :: response where
  "subscription_update_failed = error_response 500 ''Failed to process subscription update webhook''"

text \<open>
  Lines 159-253, for a Prisma client to run them on: find the row, overwrite its status,
  set the period end if the event has one, write the audit entries. A value that is not
  one of the enum's is rejected by the client.
\<close>

definition reconcile :: "nat \<Rightarrow> request \<Rightarrow> subscription_event \<Rightarrow> db_state \<Rightarrow> response \<times> db_state" where
  "reconcile now req ev st =
     (let sid = ''gid://shopify/AppSubscription/'' @ se_id ev in
      case findSubscription sid st of
        None \<Rightarrow> (Response 200 [(''success'', JBool True)], st)
      | Some subscription \<Rightarrow>
      (case newStatus_of (se_status ev) of
        Prototype_member m \<Rightarrow> (subscription_update_failed, st)
      | Status newStatus \<Rightarrow>
      (case updateSubscriptionStatus sid newStatus now st of
        Inl e \<Rightarrow> (subscription_update_failed, st)
      | Inr (updatedSubscription, st1) \<Rightarrow>
          let st2 = (case se_billing_on ev of
                       None \<Rightarrow> st1
                     | Some d \<Rightarrow>
                         st1\<lparr>subscriptions :=
                               map (\<lambda>s. if shopifySubscriptionId s = sid
                                         then s\<lparr>sub_currentPeriodEnd := Some d, sub_updatedAt := now\<rparr>
                                         else s)
                                   (subscriptions st1)\<rparr>);
              st3 = createAuditLog (subscription_updated_entry req ev subscription sid newStatus) st2;
              st4 = (if newStatus = ACTIVE \<and> sub_status subscription = PENDING
                     then createAuditLog (subscription_activated_entry now subscription sid) st3
                     else if newStatus = CANCELLED
                     then createAuditLog (subscription_cancelled_by_shopify_entry now subscription sid) st3
                     else st3)
          in (Response 200
                [(''success'', JBool True), (''message'', JStr ''Subscription updated successfully''),
                 (''subscription'',
                    JObj [(''id'', JStr (sub_id updatedSubscription)),
                          (''status'', JStr (status_name (sub_status updatedSubscription))),
                          (''updatedAt'', JDate (sub_updatedAt updatedSubscription))])],
              st4))))"

text \<open>
  The handler. After the signature check and the parse it reads \<^verbatim>\<open>db.prisma\<close> (line
  159) to reach the client. \<^verbatim>\<open>db\<close> has no such member, so the value is
  \<^verbatim>\<open>undefined\<close>, reading \<^verbatim>\<open>.subscription\<close> of it throws a TypeError, and the
  \<^verbatim>\<open>catch\<close> of line 255 answers 500.
\<close>

definition POST_app_subscriptions_update ::
  "string \<Rightarrow> (string \<Rightarrow> subscription_event option) \<Rightarrow> nat \<Rightarrow> request \<Rightarrow> db_state \<Rightarrow> response \<times> db_state" where
  "POST_app_subscriptions_update secret parse now req st =
     (case or_else (hmac_header req) None of
        None \<Rightarrow> (error_response 401 ''Missing webhook signature'', st)
      | Some signature \<Rightarrow>
     (case verifyWebhookSignature secret (body_text req) signature of
        Inl e \<Rightarrow> (subscription_update_failed, st)
      | Inr False \<Rightarrow> (error_response 401 ''Invalid webhook signature'', st)
      | Inr True \<Rightarrow>
     (case parse (body_text req) of
        None \<Rightarrow> (subscription_update_failed, st)
      | Some subscriptionData \<Rightarrow>
          if db_has_member ''prisma'' then reconcile now req subscriptionData st
          else (subscription_update_failed, st))))"

section \<open>Billing endpoints (src/unnamed/part_008 and part_009)\<close>

text \<open>
  The session store and the billing provider are outside the repository; the handlers
  take them as functions. \<open>loadSession shop\<close> is
  \<^verbatim>\<open>shopify.config.sessionStorage.loadSession(shopify.session.getOfflineId(shop))\<close>:
  it throws, finds nothing, or yields the session.
\<close>

type_synonym session = string

record user_error =
  err_field :: "string list option"
  err_message :: string

text \<open>\<^verbatim>\<open>r.userErrors && r.userErrors.length > 0\<close> holds iff this list is not empty.\<close>

fun userErrors_of :: "user_error list option \<Rightarrow> user_error list" where
  "userErrors_of None = []"
| "userErrors_of (Some es) = es"




record plan =
  plan_name :: string
  plan_price :: rat
  plan_currency :: string
  plan_interval :: string
  plan_trialDays :: nat

definition basic_plan :: plan where
  "basic_plan = \<lparr>plan_name = ''Privacy Popup Basic'', plan_price = 499 / 100,
                  plan_currency = ''USD'', plan_interval = ''EVERY_30_DAYS'', plan_trialDays = 7\<rparr>"

definition premium_plan :: plan where
  "premium_plan = \<lparr>plan_name = ''Privacy Popup Premium'', plan_price = 999 / 100,
                    plan_currency = ''USD'', plan_interval = ''EVERY_30_DAYS'', plan_trialDays = 7\<rparr>"

text \<open>
  \<^verbatim>\<open>plans[planId] || plans.basic\<close>; \<open>None\<close> when the lookup lands on a member of
  \<^verbatim>\<open>Object.prototype\<close>, which is no plan (it has no price).
\<close>

definition selectedPlan_of :: "string \<Rightarrow> plan option" where
  "selectedPlan_of planId =
     (if planId = ''basic'' then Some basic_plan
      else if planId = ''premium'' then Some premium_plan
      else if planId \<in> set Object_prototype_members then None
      else Some basic_plan)"

text \<open>
  \<^verbatim>\<open>subscribeSchema.parse\<close>: the body must be an object; \<^verbatim>\<open>planId\<close> is a string,
  \<^verbatim>\<open>'basic'\<close> when missing; \<^verbatim>\<open>test\<close> is a boolean, \<^verbatim>\<open>false\<close> when missing.
\<close>

fun optional_string :: "string \<Rightarrow> json option \<Rightarrow> string option" where
  "optional_string d None = Some d"
| "optional_string d (Some (JStr s)) = Some s"
| "optional_string d (Some _) = None"

fun optional_bool :: "bool \<Rightarrow> json option \<Rightarrow> bool option" where
  "optional_bool d None = Some d"
| "optional_bool d (Some (JBool b)) = Some b"
| "optional_bool d (Some _) = None"

fun subscribeSchema_parse :: "json \<Rightarrow> (string \<times> bool) option" where
  "subscribeSchema_parse (JObj kv) =
     (case optional_string ''basic'' (map_of kv ''planId'') of
        None \<Rightarrow> None
      | Some planId \<Rightarrow>
          (case optional_bool False (map_of kv ''test'') of
             None \<Rightarrow> None
           | Some t \<Rightarrow> Some (planId, t)))"
| "subscribeSchema_parse _ = None"

record app_subscription =
  as_id :: string
  as_name :: string
  as_trialDays :: "nat option"

record create_result =
  create_appSubscription :: "app_subscription option"
  create_confirmationUrl :: "string option"
  create_userErrors :: "user_error list option"

text \<open>\<^verbatim>\<open>trialDays ? new Date(Date.now() + trialDays * 24 * 60 * 60 * 1000) : undefined\<close>\<close>

fun trialEnd_of :: "nat \<Rightarrow> nat option \<Rightarrow> nat option" where
  "trialEnd_of now None = None"
| "trialEnd_of now (Some days) = (if days = 0 then None else Some (now + days * 24 * 60 * 60 * 1000))"

definition subscription_created_entry ::
  "request \<Rightarrow> string \<Rightarrow> string \<Rightarrow> plan \<Rightarrow> bool \<Rightarrow> subscription_row \<Rightarrow> audit_row" where
  "subscription_created_entry req shopId planId selectedPlan t subscription =
     \<lparr>log_shopId = shopId, log_action = ''subscription_created'',
      log_resource = Some ''subscription'', log_resourceId = Some (sub_id subscription),
      log_details =
        [(''planId'', JStr planId), (''price'', JNum (plan_price selectedPlan)),
         (''currency'', JStr (plan_currency selectedPlan)),
         (''trialDays'', JNum (of_nat (plan_trialDays selectedPlan))), (''test'', JBool t),
         (''shopifySubscriptionId'', JStr (shopifySubscriptionId subscription))],
      log_userAgent = req_userAgent req, log_ipAddress = req_ipAddress req\<rparr>"

text \<open>
  \<open>parse_json\<close> is \<^verbatim>\<open>request.json()\<close> (\<open>None\<close> when it throws) and \<open>new_id\<close> the id
  the database gives the new row. The provider is called with the selected plan and the
  test flag. A row without a price is rejected by the database.
\<close>

definition POST_billing_subscribe ::
  "(string \<Rightarrow> js_error + session option) \<Rightarrow> (string \<Rightarrow> json option)
     \<Rightarrow> (session \<Rightarrow> plan option \<Rightarrow> bool \<Rightarrow> js_error + create_result) \<Rightarrow> nat \<Rightarrow> string
     \<Rightarrow> request \<Rightarrow> db_state \<Rightarrow> response \<times> db_state" where
  "POST_billing_subscribe loadSession parse_json createAppSubscription now new_id req st =
     (case or_else (url_shop req) None of
        None \<Rightarrow> (error_response 400 ''Missing shop parameter'', st)
      | Some shop \<Rightarrow>
     (case loadSession shop of
        Inl e \<Rightarrow> (error_response 500 ''Failed to create subscription'', st)
      | Inr None \<Rightarrow> (error_response 401 ''No active session found'', st)
      | Inr (Some session) \<Rightarrow>
     (case parse_json (body_text req) of
        None \<Rightarrow> (error_response 500 ''Failed to create subscription'', st)
      | Some body \<Rightarrow>
     (case subscribeSchema_parse body of
        None \<Rightarrow> (error_response 400 ''Invalid request data'', st)
      | Some (planId, t) \<Rightarrow>
     (case findShopByDomain shop st of
        None \<Rightarrow> (error_response 404 ''Shop not found'', st)
      | Some shopRecord \<Rightarrow>
     (case getActiveSubscription (shop_id shopRecord) st of
        Some activeSubscription \<Rightarrow>
          (error_response 400 ''Shop already has an active subscription'', st)
      | None \<Rightarrow>
     (case createAppSubscription session (selectedPlan_of planId) t of
        Inl e \<Rightarrow> (error_response 500 ''Failed to create subscription'', st)
      | Inr subscriptionResult \<Rightarrow>
          if userErrors_of (create_userErrors subscriptionResult) \<noteq> []
          then (error_response 400
                  (''Subscription creation failed: '' @
                   join '', '' (map err_message (userErrors_of (create_userErrors subscriptionResult)))),
                st)
          else
     (case create_appSubscription subscriptionResult of
        None \<Rightarrow> (error_response 500 ''Failed to create subscription'', st)
      | Some appSubscription \<Rightarrow>
     (case selectedPlan_of planId of
        None \<Rightarrow> (error_response 500 ''Failed to create subscription'', st)
      | Some selectedPlan \<Rightarrow>
     (case createSubscription
             \<lparr>sub_id = new_id, sub_shopId = shop_id shopRecord,
              shopifySubscriptionId = as_id appSubscription, sub_name = as_name appSubscription,
              sub_status = PENDING, sub_price = plan_price selectedPlan,
              sub_currency = plan_currency selectedPlan, sub_interval = plan_interval selectedPlan,
              sub_trialEnd = trialEnd_of now (as_trialDays appSubscription),
              sub_currentPeriodEnd = None, sub_test = t,
              sub_createdAt = now, sub_updatedAt = now\<rparr> st of
        Inl e \<Rightarrow> (error_response 500 ''Failed to create subscription'', st)
      | Inr (subscription, st1) \<Rightarrow>
          (Response 200
             [(''success'', JBool True),
              (''subscription'',
                 JObj [(''id'', JStr (sub_id subscription)), (''name'', JStr (sub_name subscription)),
                       (''status'', JStr (status_name (sub_status subscription))),
                       (''price'', JNum (sub_price subscription)),
                       (''currency'', JStr (sub_currency subscription)),
                       (''trialEnd'', (case sub_trialEnd subscription of
                                          None \<Rightarrow> JNull | Some d \<Rightarrow> JDate d))]),
              (''confirmationUrl'', opt_str (create_confirmationUrl subscriptionResult))],
           createAuditLog
             (subscription_created_entry req (shop_id shopRecord) planId selectedPlan t subscription)
             st1)))))))))))"

section \<open>Settings endpoint (src/unnamed/part_006, lines 821-1035)\<close>

text \<open>
  \<^verbatim>\<open>popupSettingsSchema\<close>, read off a JSON object: every field is required, unknown
  keys are dropped. \<open>is_url\<close> is zod's \<^verbatim>\<open>.url()\<close> test (the platform's URL parser).
  \<^verbatim>\<open>/^#[0-9A-Fa-f]{6}$/\<close> accepts a hash sign followed by exactly six hex digits.
\<close>

fun get_string :: "json option \<Rightarrow> string option" where
  "get_string (Some (JStr s)) = Some s"
| "get_string _ = None"

fun get_number :: "json option \<Rightarrow> rat option" where
  "get_number (Some (JNum n)) = Some n"
| "get_number _ = None"

fun get_bool :: "json option \<Rightarrow> bool option" where
  "get_bool (Some (JBool b)) = Some b"
| "get_bool _ = None"

definition is_hex_digit :: "char \<Rightarrow> bool" where
  "is_hex_digit c = (c \<in> set ''0123456789ABCDEFabcdef'')"

fun is_hex_color :: "string \<Rightarrow> bool" where
  "is_hex_color [] = False"
| "is_hex_color (c # rest) = (c = CHR ''#'' \<and> length rest = 6 \<and> list_all is_hex_digit rest)"

fun starts_with_slash :: "string \<Rightarrow> bool" where
  "starts_with_slash [] = False"
| "starts_with_slash (c # rest) = (c = CHR ''/'')"

definition popupSettings_ok :: "(string \<Rightarrow> bool) \<Rightarrow> popupSettings \<Rightarrow> bool" where
  "popupSettings_ok is_url p =
     (1 \<le> length (message p) \<and> length (message p) \<le> 1000 \<and>
      (is_url (linkUrl p) \<or> starts_with_slash (linkUrl p)) \<and>
      position p \<in> set [''top'', ''bottom'', ''left'', ''right''] \<and>
      200 \<le> maxWidth p \<and> maxWidth p \<le> 800 \<and>
      10 \<le> padding p \<and> padding p \<le> 50 \<and>
      1 \<le> zIndex p \<and> zIndex p \<le> 99999 \<and>
      is_hex_color (bgColor p) \<and> is_hex_color (textColor p) \<and> is_hex_color (linkColor p))"

fun popupSettingsSchema_parse :: "(string \<Rightarrow> bool) \<Rightarrow> json \<Rightarrow> popupSettings option" where
  "popupSettingsSchema_parse is_url (JObj kv) =
     do {
       m \<leftarrow> get_string (map_of kv ''message'');
       l \<leftarrow> get_string (map_of kv ''linkUrl'');
       p \<leftarrow> get_string (map_of kv ''position'');
       w \<leftarrow> get_number (map_of kv ''maxWidth'');
       pd \<leftarrow> get_number (map_of kv ''padding'');
       z \<leftarrow> get_number (map_of kv ''zIndex'');
       d \<leftarrow> get_bool (map_of kv ''dismissible'');
       bg \<leftarrow> get_string (map_of kv ''bgColor'');
       tx \<leftarrow> get_string (map_of kv ''textColor'');
       lk \<leftarrow> get_string (map_of kv ''linkColor'');
       let v = \<lparr>message = m, linkUrl = l, position = p, maxWidth = w, padding = pd,
                zIndex = z, dismissible = d, bgColor = bg, textColor = tx, linkColor = lk\<rparr>;
       if popupSettings_ok is_url v then Some v else None
     }"
| "popupSettingsSchema_parse is_url _ = None"

definition settings_updated_entry :: "request \<Rightarrow> string \<Rightarrow> (string \<times> json) list \<Rightarrow> audit_row" where
  "settings_updated_entry req shopId details =
     \<lparr>log_shopId = shopId, log_action = ''settings_updated'',
      log_resource = Some ''popup_settings'', log_resourceId = None,
      log_details = details,
      log_userAgent = req_userAgent req, log_ipAddress = req_ipAddress req\<rparr>"

text \<open>
  Lines 955-961: the validated settings with the three colours replaced
  (\<^verbatim>\<open>{ ...validatedSettings, bgColor: '#ffffff', textColor: '#333333', linkColor: '#007ace' }\<close>).
\<close>

definition restrict :: "popupSettings \<Rightarrow> popupSettings" where
  "restrict validatedSettings =
     validatedSettings\<lparr>bgColor := ''#ffffff'', textColor := ''#333333'', linkColor := ''#007ace''\<rparr>"

text \<open>
  The POST handler. The field-level list that goes with a 400 answer is left out of the
  response.
\<close>

definition POST_settings ::
  "(string \<Rightarrow> js_error + session option) \<Rightarrow> (string \<Rightarrow> json option) \<Rightarrow> (string \<Rightarrow> bool)
     \<Rightarrow> request \<Rightarrow> db_state \<Rightarrow> response \<times> db_state" where
  "POST_settings loadSession parse_json is_url req st =
     (case or_else (url_shop req) None of
        None \<Rightarrow> (error_response 400 ''Missing shop parameter'', st)
      | Some shop \<Rightarrow>
     (case loadSession shop of
        Inl e \<Rightarrow> (error_response 500 ''Failed to update settings'', st)
      | Inr None \<Rightarrow> (error_response 401 ''No active session found'', st)
      | Inr (Some session) \<Rightarrow>
     (case findShopByDomain shop st of
        None \<Rightarrow> (error_response 404 ''Shop not found'', st)
      | Some shopRecord \<Rightarrow>
     (case parse_json (body_text req) of
        None \<Rightarrow> (error_response 500 ''Failed to update settings'', st)
      | Some body \<Rightarrow>
     (case popupSettingsSchema_parse is_url body of
        None \<Rightarrow> (error_response 400 ''Invalid settings data'', st)
      | Some validatedSettings \<Rightarrow>
          let activeSubscription = getActiveSubscription (shop_id shopRecord) st;
              hasActiveSubscription =
                (case activeSubscription of None \<Rightarrow> False | Some a \<Rightarrow> sub_status a = ACTIVE)
          in
            if \<not> hasActiveSubscription then
              let restrictedSettings = restrict validatedSettings;
                  st1 = updateShopSettings (shop_id shopRecord) ''popup_settings''
                          (PopupSettings restrictedSettings) st;
                  st2 = createAuditLog
                          (settings_updated_entry req (shop_id shopRecord)
                             [(''updatedSettings'', popup_json restrictedSettings),
                              (''restrictedFeatures'', JArr [JStr ''custom_colors'']),
                              (''subscriptionRequired'', JBool True)]) st1
              in (Response 200
                    [(''success'', JBool True), (''data'', popup_json restrictedSettings),
                     (''warning'',
                        JStr ''Some advanced styling options require an active subscription''),
                     (''restrictedFeatures'', JArr [JStr ''custom_colors''])],
                  st2)
            else
              let st1 = updateShopSettings (shop_id shopRecord) ''popup_settings''
                          (PopupSettings validatedSettings) st;
                  st2 = createAuditLog
                          (settings_updated_entry req (shop_id shopRecord)
                             [(''updatedSettings'', popup_json validatedSettings),
                              (''hasSubscription'', JBool True)]) st1
              in (Response 200
                    [(''success'', JBool True), (''data'', popup_json validatedSettings),
                     (''message'', JStr ''Settings updated successfully'')],
                  st2))))))"

section \<open>Sequences of billing operations\<close>

text \<open>
  The two operations that create and move subscriptions: a call of the subscribe
  endpoint and a delivery of the subscription update webhook, each with everything its
  handler reads from outside. A run applies a list of them, left to right.
\<close>

datatype billing_op =
    Subscribe "string \<Rightarrow> js_error + session option" "string \<Rightarrow> json option"
              "session \<Rightarrow> plan option \<Rightarrow> bool \<Rightarrow> js_error + create_result" nat string request
  | StatusUpdate "string \<Rightarrow> subscription_event option" nat request

fun apply_op :: "string \<Rightarrow> billing_op \<Rightarrow> db_state \<Rightarrow> db_state" where
  "apply_op secret (Subscribe loadSession parse_json provider now new_id req) st =
     snd (POST_billing_subscribe loadSession parse_json provider now new_id req st)"
| "apply_op secret (StatusUpdate parse now req) st =
     snd (POST_app_subscriptions_update secret parse now req st)"

definition run :: "string \<Rightarrow> billing_op list \<Rightarrow> db_state \<Rightarrow> db_state" where
  "run secret ops st = foldl (\<lambda>s op. apply_op secret op s) st ops"

definition active_of :: "string \<Rightarrow> db_state \<Rightarrow> subscription_row list" where
  "active_of shopId st =
     filter (\<lambda>s. sub_shopId s = shopId \<and> sub_status s = ACTIVE) (subscriptions st)"

section \<open>Notions the properties are stated with\<close>

text \<open>The status of every subscription, by its provider id.\<close>

definition statuses :: "db_state \<Rightarrow> (string \<times> sub_status) list" where
  "statuses st = map (\<lambda>s. (shopifySubscriptionId s, sub_status s)) (subscriptions st)"

text \<open>No subscription at all is ACTIVE.\<close>

definition no_active :: "db_state \<Rightarrow> bool" where
  "no_active st = (filter (\<lambda>s. sub_status s = ACTIVE) (subscriptions st) = [])"



section \<open>Example data\<close>

text \<open>
  One shop with one subscription (in a given status), its popup settings with custom
  colours, one audit entry and one session; requests for each endpoint; a webhook body
  signed with the secret.
\<close>

definition demo_shop :: shop_row where
  "demo_shop = \<lparr>shop_id = ''shop_1'', shopifyDomain = ''demo.myshopify.com''\<rparr>"

definition demo_subscription :: "sub_status \<Rightarrow> subscription_row" where
  "demo_subscription s =
     \<lparr>sub_id = ''sub_1'', sub_shopId = ''shop_1'',
      shopifySubscriptionId = ''gid://shopify/AppSubscription/1'',
      sub_name = ''Privacy Popup Basic'', sub_status = s, sub_price = 499 / 100,
      sub_currency = ''USD'', sub_interval = ''EVERY_30_DAYS'', sub_trialEnd = None,
      sub_currentPeriodEnd = None, sub_test = False, sub_createdAt = 1, sub_updatedAt = 1\<rparr>"

definition demo_settings :: popupSettings where
  "demo_settings =
     \<lparr>message = ''We use cookies.'', linkUrl = ''/pages/privacy-policy'', position = ''bottom'',
      maxWidth = 400, padding = 20, zIndex = 9999, dismissible = True,
      bgColor = ''#ff0000'', textColor = ''#00ff00'', linkColor = ''#0000ff''\<rparr>"

definition demo_installed :: audit_row where
  "demo_installed =
     \<lparr>log_shopId = ''shop_1'', log_action = ''app_installed'', log_resource = Some ''app'',
      log_resourceId = None, log_details = [], log_userAgent = None, log_ipAddress = None\<rparr>"

definition demo_db :: "sub_status \<Rightarrow> db_state" where
  "demo_db s =
     \<lparr>shops = [demo_shop], subscriptions = [demo_subscription s],
      settings = [\<lparr>set_shopId = ''shop_1'', set_key = ''popup_settings'',
                   set_value = PopupSettings demo_settings\<rparr>],
      auditLogs = [demo_installed],
      sessions = [\<lparr>session_id = ''offline_demo.myshopify.com'',
                   session_shop = ''demo.myshopify.com''\<rparr>]\<rparr>"

definition signed :: "string \<Rightarrow> string \<Rightarrow> request" where
  "signed secret body =
     \<lparr>url_shop = None, body_text = body, hmac_header = Some (hmac_base64 secret body),
      user_agent = None, x_forwarded_for = None, x_real_ip = None\<rparr>"


definition demo_event :: "string \<Rightarrow> subscription_event" where
  "demo_event status =
     \<lparr>se_id = ''1'', se_status = status, se_billing_on = None, se_name = JStr ''Privacy Popup Basic'',
      se_created_at = JNull, se_updated_at = JNull\<rparr>"



definition demo_settings_request :: request where
  "demo_settings_request =
     \<lparr>url_shop = Some ''demo.myshopify.com'', body_text = ''{...}'', hmac_header = None,
      user_agent = Some ''curl'', x_forwarded_for = None, x_real_ip = None\<rparr>"

definition demo_subscribe_request :: request where
  "demo_subscribe_request =
     \<lparr>url_shop = Some ''demo.myshopify.com'', body_text = ''{}'', hmac_header = None,
      user_agent = None, x_forwarded_for = None, x_real_ip = None\<rparr>"

definition demo_created :: create_result where
  "demo_created =
     \<lparr>create_appSubscription =
        Some \<lparr>as_id = ''gid://shopify/AppSubscription/1'', as_name = ''Privacy Popup Basic'',
               as_trialDays = Some 7\<rparr>,
      create_confirmationUrl = Some ''https://demo.myshopify.com/confirm'',
      create_userErrors = Some []\<rparr>"

definition demo_empty_db :: db_state where
  "demo_empty_db =
     \<lparr>shops = [demo_shop], subscriptions = [], settings = [], auditLogs = [], sessions = []\<rparr>"


text \<open>The example shop with two PENDING subscriptions.\<close>

definition demo_second_subscription :: subscription_row where
  "demo_second_subscription =
     (demo_subscription PENDING)\<lparr>sub_id := ''sub_2'',
        shopifySubscriptionId := ''gid://shopify/AppSubscription/2'', sub_createdAt := 2\<rparr>"

definition demo_two_pending :: db_state where
  "demo_two_pending =
     (demo_db PENDING)\<lparr>subscriptions := [demo_subscription PENDING, demo_second_subscription]\<rparr>"

section \<open>Properties of the signature check\<close>

lemma length_sha_state_bytes: "length (sha_state_bytes s) = 32"
  by (simp add: sha_state_bytes_def u32_bytes_def split: prod.splits)

lemma length_sha256: "length (sha256 m) = 32"
  by (simp add: sha256_def Let_def length_sha_state_bytes)

lemma length_base64: "length (base64 xs) = 4 * ((length xs + 2) div 3)"
proof (induction xs rule: base64.induct)
  case (4 a b c rest)
  have "(5 + length rest) div 3 = Suc (Suc (Suc (length rest)) div 3)"
    by presburger
  with 4 show ?case by simp
qed simp_all

text \<open>The digest of a webhook is always 44 characters long.\<close>

lemma length_hmac_base64: "length (hmac_base64 k d) = 44"
  by (simp add: hmac_base64_def hmac_sha256_def Let_def length_base64 length_sha256)

lemma unat_byte_of_char: "unat (byte_of_char c) = of_char c"
  by (simp add: byte_of_char_def unat_of_nat)

lemma byte_of_char_inj: "byte_of_char c = byte_of_char c' \<Longrightarrow> c = c'"
proof -
  assume "byte_of_char c = byte_of_char c'"
  then have "unat (byte_of_char c) = unat (byte_of_char c')"
    by simp
  then have "(of_char c :: nat) = of_char c'"
    by (simp add: unat_byte_of_char)
  then show "c = c'"
    by simp
qed

lemma utf8_eq_iff: "utf8 a = utf8 b \<longleftrightarrow> a = b"
  unfolding utf8_def
  by (rule inj_map_eq_map) (auto simp: inj_on_def dest: byte_of_char_inj)

lemma length_utf8: "length (utf8 s) = length s"
  by (simp add: utf8_def)

text \<open>HMAC fills a short key with zero bytes, so a trailing zero byte does not change it.\<close>

lemma hmac_key_block_zero: "length k < 64 \<Longrightarrow> hmac_key_block (k @ [0]) = hmac_key_block k"
  by (simp add: hmac_key_block_def Let_def replicate_append_same flip: replicate_Suc)

lemma hmac_base64_NUL:
  "length k < 64 \<Longrightarrow> hmac_base64 (k @ [CHR 0x00]) d = hmac_base64 k d"
proof -
  assume "length k < 64"
  then have "hmac_key_block (utf8 k @ [0]) = hmac_key_block (utf8 k)"
    by (simp add: hmac_key_block_zero length_utf8)
  moreover have "utf8 (k @ [CHR 0x00]) = utf8 k @ [0]"
    by (simp add: utf8_def byte_of_char_def)
  ultimately show ?thesis
    by (simp add: hmac_base64_def hmac_sha256_def)
qed

lemma verify_digest:
  "verifyWebhookSignature k d (hmac_base64 k' d) = Inr (hmac_base64 k' d = hmac_base64 k d)"
  by (auto simp: verifyWebhookSignature_def timingSafeEqual_def Let_def length_utf8
      length_hmac_base64 utf8_eq_iff)

lemma verify_own_digest: "verifyWebhookSignature k d (hmac_base64 k d) = Inr True"
  by (simp add: verify_digest)

lemma verify_wrong_length:
  "length signature \<noteq> 44 \<Longrightarrow> verifyWebhookSignature k d signature = Inl RangeError"
  by (simp add: verifyWebhookSignature_def timingSafeEqual_def Let_def length_utf8
      length_hmac_base64)

lemma verify_right_length:
  "length signature = 44 \<Longrightarrow>
     verifyWebhookSignature k d signature = Inr (signature = hmac_base64 k d)"
  by (auto simp: verifyWebhookSignature_def timingSafeEqual_def Let_def length_utf8
      length_hmac_base64 utf8_eq_iff)

text \<open>
  C1, as amended. The digest of a payload under the configured secret is accepted. The
  digest of the same payload under another secret is rejected exactly when it differs
  from the digest under the configured secret; it is never an error.
\<close>

theorem C1_own_digest_accepted_other_compared:
  "verifyWebhookSignature K P (hmac_base64 K P) = Inr True \<and>
   verifyWebhookSignature K P (hmac_base64 K' P) = Inr (hmac_base64 K' P = hmac_base64 K P)"
  by (simp add: verify_digest)

text \<open>
  C1 as stated fails: the secret \<open>s\<close> followed by a NUL character is a different secret,
  and the digest computed under it is accepted under \<open>s\<close>.
\<close>

theorem C1_counterexample_padded_secret:
  "''s'' \<noteq> ''s'' @ [CHR 0x00] \<and>
   verifyWebhookSignature ''s'' ''{}'' (hmac_base64 (''s'' @ [CHR 0x00]) ''{}'') = Inr True"
proof -
  have "hmac_base64 (''s'' @ [CHR 0x00]) ''{}'' = hmac_base64 ''s'' ''{}''"
    by (rule hmac_base64_NUL) simp
  then show ?thesis
    by (simp add: verify_digest)
qed

text \<open>
  C2 fails on the code: a signature whose length is not that of a digest makes
  \<^verbatim>\<open>timingSafeEqual\<close> throw, so the function returns no boolean.
\<close>

theorem C2_short_signature_throws:
  "verifyWebhookSignature ''test_api_secret'' ''{}'' ''abc'' = Inl RangeError"
  by (rule verify_wrong_length) simp

text \<open>
  The two webhook handlers then answer 500 from their \<^verbatim>\<open>catch\<close>, not the 401 of their
  \<^verbatim>\<open>!isValid\<close> branch.
\<close>

lemma short_signature_answers_500:
  "hmac_header req = Some signature \<Longrightarrow> signature \<noteq> [] \<Longrightarrow> length signature \<noteq> 44 \<Longrightarrow>
   POST_app_uninstalled secret parse fails now req st =
     (error_response 500 ''Failed to process app uninstalled webhook'', st) \<and>
   POST_app_subscriptions_update secret parse' now req st = (subscription_update_failed, st)"
  by (cases signature)
    (simp_all add: POST_app_uninstalled_def POST_app_subscriptions_update_def verify_wrong_length)

section \<open>The uninstall webhook\<close>

lemma digest_not_empty [simp]: "hmac_base64 k d \<noteq> []"
  using length_hmac_base64 [of k d] by auto

lemma or_else_digest: "or_else (Some (hmac_base64 k d)) b = Some (hmac_base64 k d)"
  by simp






section \<open>The subscription update webhook\<close>

lemma db_has_no_prisma: "\<not> db_has_member ''prisma''"
  by (simp add: db_has_member_def db_members_def Object_prototype_members_def)

lemma update_webhook_writes_nothing:
  "snd (POST_app_subscriptions_update secret parse now req st) = st"
  by (simp add: POST_app_subscriptions_update_def db_has_no_prisma
      split: option.splits sum.splits bool.splits)

lemma update_webhook_verified:
  "hmac_header req = Some (hmac_base64 secret (body_text req)) \<Longrightarrow>
   parse (body_text req) = Some ev \<Longrightarrow>
   POST_app_subscriptions_update secret parse now req st = (subscription_update_failed, st)"
  by (simp add: POST_app_subscriptions_update_def db_has_no_prisma verify_own_digest)

lemma newStatus_of_unknown:
  "key \<notin> set (map fst statusMapping) \<Longrightarrow> key \<notin> set Object_prototype_members \<Longrightarrow>
   newStatus_of key = Status PENDING"
proof -
  assume "key \<notin> set (map fst statusMapping)" and proto: "key \<notin> set Object_prototype_members"
  then have "map_of statusMapping key = None"
    by (simp add: map_of_eq_None_iff)
  with proto show ?thesis
    by (simp add: newStatus_of_def)
qed

text \<open>
  What lines 159-253 do to the statuses: the rows with the event's id get the mapped
  status, every other row keeps its own.
\<close>

lemma findSubscription_None_statuses:
  "findSubscription sid st = None \<Longrightarrow>
   map (\<lambda>(i, s). if i = sid then (i, ns) else (i, s)) (statuses st) = statuses st"
  by (auto simp: findSubscription_def find_None_iff statuses_def)

lemma reconcile_statuses:
  "statuses (snd (reconcile now req ev st)) =
     (case newStatus_of (se_status ev) of
        Status ns \<Rightarrow>
          map (\<lambda>(i, s). if i = ''gid://shopify/AppSubscription/'' @ se_id ev then (i, ns) else (i, s))
            (statuses st)
      | Prototype_member m \<Rightarrow> statuses st)"
proof (cases "findSubscription (''gid://shopify/AppSubscription/'' @ se_id ev) st")
  case None
  then show ?thesis
    by (simp add: reconcile_def Let_def findSubscription_None_statuses split: mapped.splits)
next
  case (Some a)
  then show ?thesis
    by (auto simp: reconcile_def Let_def updateSubscriptionStatus_def createAuditLog_def
        statuses_def comp_def split: mapped.splits option.splits)
qed

lemma reconcile_twice:
  "statuses (snd (reconcile now2 req2 ev (snd (reconcile now1 req1 ev st)))) =
   statuses (snd (reconcile now1 req1 ev st))"
  by (simp add: reconcile_statuses comp_def split: mapped.splits prod.splits)

text \<open>
  C4 fails on the code. The table does send \<^verbatim>\<open>declined\<close> to CANCELLED, but a key
  outside the table is not always sent to PENDING (\<^verbatim>\<open>constructor\<close> is found on
  \<^verbatim>\<open>Object.prototype\<close>), and a verified \<^verbatim>\<open>declined\<close> event for a PENDING
  subscription is answered with 500 and writes nothing, so no cancellation entry is
  emitted.
\<close>

theorem C4_declined_and_inherited_keys:
  "newStatus_of ''declined'' = Status CANCELLED \<and>
   newStatus_of ''constructor'' = Prototype_member ''constructor'' \<and>
   POST_app_subscriptions_update ''test_api_secret'' (\<lambda>b. Some (demo_event ''declined'')) 5
     (signed ''test_api_secret'' ''{}'') (demo_db PENDING) =
   (subscription_update_failed, demo_db PENDING)"
  by (simp add: newStatus_of_def statusMapping_def Object_prototype_members_def
      update_webhook_verified signed_def)

text \<open>
  C5. Delivering the same verified or unverified request twice leaves every
  subscription's status as one delivery leaves it; and lines 159-253 on their own, run
  twice on the same event, leave the statuses as one run does.
\<close>

theorem C5_same_event_twice:
  "statuses (snd (POST_app_subscriptions_update secret parse now2 req
       (snd (POST_app_subscriptions_update secret parse now1 req st)))) =
   statuses (snd (POST_app_subscriptions_update secret parse now1 req st)) \<and>
   statuses (snd (reconcile now2 req2 ev (snd (reconcile now1 req1 ev st)))) =
   statuses (snd (reconcile now1 req1 ev st))"
  by (simp add: update_webhook_writes_nothing reconcile_twice)

text \<open>
  C6 fails on the code. Lines 186-227 would append a \<^verbatim>\<open>subscription_updated\<close> and a
  \<^verbatim>\<open>subscription_activated\<close> entry for a PENDING subscription that becomes ACTIVE,
  but the handler answers 500 and appends nothing.
\<close>

theorem C6_activation_writes_no_entry:
  "POST_app_subscriptions_update ''test_api_secret'' (\<lambda>b. Some (demo_event ''active'')) 5
     (signed ''test_api_secret'' ''{}'') (demo_db PENDING) =
   (subscription_update_failed, demo_db PENDING) \<and>
   map log_action (auditLogs (snd (reconcile 5 (signed ''test_api_secret'' ''{}'')
     (demo_event ''active'') (demo_db PENDING)))) =
   [''app_installed'', ''subscription_updated'', ''subscription_activated'']"
  by (simp add: update_webhook_verified signed_def reconcile_def demo_event_def demo_db_def
      demo_subscription_def findSubscription_def newStatus_of_def statusMapping_def
      updateSubscriptionStatus_def createAuditLog_def Let_def demo_installed_def
      subscription_updated_entry_def subscription_activated_entry_def)

section \<open>The cancellation endpoint\<close>

lemma newest_in: "newest xs = Some a \<Longrightarrow> a \<in> set xs"
  by (induction xs arbitrary: a) (auto split: option.splits if_splits)

lemma newest_None: "newest xs = None \<longleftrightarrow> xs = []"
  by (induction xs) (auto split: option.splits)

lemma active_found:
  "getActiveSubscription i st = Some a \<Longrightarrow>
   findSubscription (shopifySubscriptionId a) st \<noteq> None \<and> a \<in> set (subscriptions st)
   \<and> sub_status a = ACTIVE \<and> sub_shopId a = i"
  by (auto simp: getActiveSubscription_def findSubscription_def find_None_iff dest!: newest_in)



section \<open>The settings endpoint\<close>

lemma find_append_None: "find P xs = None \<Longrightarrow> find P (xs @ ys) = find P ys"
  by (induction xs) (auto split: if_splits)

lemma get_after_update:
  "getShopSettings i k (updateShopSettings i k v st) = Some v"
proof (cases "find (\<lambda>r. set_shopId r = i \<and> set_key r = k) (settings st)")
  case None
  then show ?thesis
    by (simp add: getShopSettings_def updateShopSettings_def find_append_None)
next
  case (Some row)
  have "find (\<lambda>r. set_shopId r = i \<and> set_key r = k)
          (map (\<lambda>r. if set_shopId r = i \<and> set_key r = k then r\<lparr>set_value := v\<rparr> else r) xs)
        = map_option (\<lambda>r. r\<lparr>set_value := v\<rparr>) (find (\<lambda>r. set_shopId r = i \<and> set_key r = k) xs)"
    for xs :: "setting_row list"
    by (induction xs) auto
  with Some show ?thesis
    by (simp add: getShopSettings_def updateShopSettings_def)
qed

lemma get_after_log: "getShopSettings i k (createAuditLog e st) = getShopSettings i k st"
  by (simp add: getShopSettings_def createAuditLog_def)

lemma hasActive_iff:
  "(case getActiveSubscription i st of None \<Rightarrow> False | Some a \<Rightarrow> sub_status a = ACTIVE)
   \<longleftrightarrow> active_of i st \<noteq> []"
proof (cases "getActiveSubscription i st")
  case None
  then show ?thesis
    by (simp add: getActiveSubscription_def active_of_def newest_None)
next
  case (Some a)
  then have "sub_status a = ACTIVE" and "active_of i st \<noteq> []"
    using newest_None [of "active_of i st"] active_found [of i st a]
    by (auto simp: getActiveSubscription_def active_of_def)
  with Some show ?thesis by simp
qed




lemma settings_path:
  assumes "or_else (url_shop req) None = Some shop"
    and "loadSession shop = Inr (Some session)"
    and "findShopByDomain shop st = Some shopRecord"
    and "parse_json (body_text req) = Some body"
    and "popupSettingsSchema_parse is_url body = Some v"
  shows "POST_settings loadSession parse_json is_url req st =
     (if active_of (shop_id shopRecord) st \<noteq> []
      then (Response 200 [(''success'', JBool True), (''data'', popup_json v),
                          (''message'', JStr ''Settings updated successfully'')],
            createAuditLog
              (settings_updated_entry req (shop_id shopRecord)
                 [(''updatedSettings'', popup_json v), (''hasSubscription'', JBool True)])
              (updateShopSettings (shop_id shopRecord) ''popup_settings'' (PopupSettings v) st))
      else (Response 200
              [(''success'', JBool True), (''data'', popup_json (restrict v)),
               (''warning'', JStr ''Some advanced styling options require an active subscription''),
               (''restrictedFeatures'', JArr [JStr ''custom_colors''])],
            createAuditLog
              (settings_updated_entry req (shop_id shopRecord)
                 [(''updatedSettings'', popup_json (restrict v)),
                  (''restrictedFeatures'', JArr [JStr ''custom_colors'']),
                  (''subscriptionRequired'', JBool True)])
              (updateShopSettings (shop_id shopRecord) ''popup_settings''
                 (PopupSettings (restrict v)) st)))"
  using assms
  by (simp add: POST_settings_def Let_def hasActive_iff del: popupSettingsSchema_parse.simps)


lemma demo_settings_parse:
  "popupSettingsSchema_parse (\<lambda>u. False) (popup_json demo_settings) = Some demo_settings"
  by (simp add: popup_json_def demo_settings_def popupSettings_ok_def is_hex_digit_def)


section \<open>At most one ACTIVE subscription\<close>

lemma subscribe_keeps_no_active:
  assumes "no_active st"
  shows "no_active (snd (POST_billing_subscribe loadSession parse_json provider now new_id req st))"
proof -
  have "subscriptions (snd (POST_billing_subscribe loadSession parse_json provider now new_id req st))
          = subscriptions st \<or>
        (\<exists>row. sub_status row = PENDING \<and>
           subscriptions (snd (POST_billing_subscribe loadSession parse_json provider now new_id req st))
             = subscriptions st @ [row])"
    by (auto simp: POST_billing_subscribe_def createSubscription_def createAuditLog_def
        split: option.splits sum.splits prod.splits if_splits)
  with assms show ?thesis
    by (auto simp: no_active_def)
qed

lemma apply_op_keeps_no_active: "no_active st \<Longrightarrow> no_active (apply_op secret op st)"
  by (cases op) (simp_all add: subscribe_keeps_no_active update_webhook_writes_nothing)

lemma run_keeps_no_active: "no_active st \<Longrightarrow> no_active (run secret ops st)"
  unfolding run_def
  by (induction ops arbitrary: st) (simp_all add: apply_op_keeps_no_active)

text \<open>
  C9. Starting without subscriptions, after any number of steps of any sequence of
  subscribe calls and webhook deliveries a shop has at most one ACTIVE subscription. On
  this code it has none: the subscribe endpoint only inserts PENDING rows and the webhook
  handler writes nothing.
\<close>

theorem C9_at_most_one_active:
  assumes "subscriptions st = []"
  shows "length (active_of shopId (run secret (take n ops) st)) \<le> 1"
proof -
  from assms have "no_active st"
    by (simp add: no_active_def)
  then have "no_active (run secret (take n ops) st)"
    by (rule run_keeps_no_active)
  then have "active_of shopId (run secret (take n ops) st) = []"
    by (simp add: no_active_def active_of_def filter_empty_conv)
  then show ?thesis
    by simp
qed

text \<open>A subscribe call followed by the delivery of an \<^verbatim>\<open>active\<close> event.\<close>

theorem C9_witness_subscribe_then_activate:
  "length (active_of ''shop_1''
     (run ''test_api_secret''
        (take 2 [Subscribe (\<lambda>shop. Inr (Some ''token'')) (\<lambda>b. Some (JObj []))
                   (\<lambda>session p t. Inr demo_created) 3 ''sub_1'' demo_subscribe_request,
                 StatusUpdate (\<lambda>b. Some (demo_event ''active'')) 4 (signed ''test_api_secret'' ''{}'')])
        demo_empty_db)) \<le> 1"
proof -
  have "subscriptions demo_empty_db = []"
    by (simp add: demo_empty_db_def)
  then show ?thesis
    by (rule C9_at_most_one_active)
qed

text \<open>
  The bound rests on the webhook handler writing nothing. Lines 159-253 on their own do
  not keep it: run on an \<^verbatim>\<open>active\<close> event for each of two PENDING subscriptions of
  one shop, they leave both ACTIVE.
\<close>

lemma reconcile_alone_allows_two_active:
  "statuses (snd (reconcile 6 (signed ''test_api_secret'' ''{}'') ((demo_event ''active'')\<lparr>se_id := ''2''\<rparr>)
     (snd (reconcile 5 (signed ''test_api_secret'' ''{}'') (demo_event ''active'') demo_two_pending)))) =
   [(''gid://shopify/AppSubscription/1'', ACTIVE), (''gid://shopify/AppSubscription/2'', ACTIVE)] \<and>
   map sub_shopId (subscriptions demo_two_pending) = [''shop_1'', ''shop_1'']"
proof -
  have active: "newStatus_of ''active'' = Status ACTIVE"
    by (simp add: newStatus_of_def statusMapping_def)
  have start: "statuses demo_two_pending =
      [(''gid://shopify/AppSubscription/1'', PENDING), (''gid://shopify/AppSubscription/2'', PENDING)]"
    by (simp add: statuses_def demo_two_pending_def demo_db_def demo_subscription_def
        demo_second_subscription_def)
  have shops: "map sub_shopId (subscriptions demo_two_pending) = [''shop_1'', ''shop_1'']"
    by (simp add: demo_two_pending_def demo_db_def demo_subscription_def
        demo_second_subscription_def)
  show ?thesis
    unfolding reconcile_statuses start by (simp add: demo_event_def active shops)
qed

section \<open>An unrecognized status for an ACTIVE subscription\<close>

lemma demo_settings_write_active:
  "getShopSettings ''shop_1'' ''popup_settings''
     (snd (POST_settings (\<lambda>shop. Inr (Some ''token'')) (\<lambda>b. Some (popup_json demo_settings))
        (\<lambda>u. False) demo_settings_request (demo_db ACTIVE))) =
   Some (PopupSettings demo_settings)"
proof -
  have "or_else (url_shop demo_settings_request) None = Some ''demo.myshopify.com''"
    by (simp add: demo_settings_request_def)
  moreover have "(\<lambda>shop :: string. (Inr (Some ''token'') :: js_error + session option))
      ''demo.myshopify.com'' = Inr (Some ''token'')"
    by simp
  moreover have "findShopByDomain ''demo.myshopify.com'' (demo_db ACTIVE) = Some demo_shop"
    by (simp add: findShopByDomain_def demo_db_def demo_shop_def)
  moreover have "(\<lambda>b :: string. Some (popup_json demo_settings)) (body_text demo_settings_request)
      = Some (popup_json demo_settings)"
    by simp
  ultimately have "POST_settings (\<lambda>shop. Inr (Some ''token'')) (\<lambda>b. Some (popup_json demo_settings))
        (\<lambda>u. False) demo_settings_request (demo_db ACTIVE) =
     (if active_of (shop_id demo_shop) (demo_db ACTIVE) \<noteq> []
      then (Response 200 [(''success'', JBool True), (''data'', popup_json demo_settings),
                          (''message'', JStr ''Settings updated successfully'')],
            createAuditLog
              (settings_updated_entry demo_settings_request (shop_id demo_shop)
                 [(''updatedSettings'', popup_json demo_settings), (''hasSubscription'', JBool True)])
              (updateShopSettings (shop_id demo_shop) ''popup_settings''
                 (PopupSettings demo_settings) (demo_db ACTIVE)))
      else (Response 200
              [(''success'', JBool True), (''data'', popup_json (restrict demo_settings)),
               (''warning'', JStr ''Some advanced styling options require an active subscription''),
               (''restrictedFeatures'', JArr [JStr ''custom_colors''])],
            createAuditLog
              (settings_updated_entry demo_settings_request (shop_id demo_shop)
                 [(''updatedSettings'', popup_json (restrict demo_settings)),
                  (''restrictedFeatures'', JArr [JStr ''custom_colors'']),
                  (''subscriptionRequired'', JBool True)])
              (updateShopSettings (shop_id demo_shop) ''popup_settings''
                 (PopupSettings (restrict demo_settings)) (demo_db ACTIVE))))"
    using demo_settings_parse by (rule settings_path)
  moreover have "active_of (shop_id demo_shop) (demo_db ACTIVE) \<noteq> []"
    by (simp add: active_of_def demo_db_def demo_subscription_def demo_shop_def)
  moreover have "shop_id demo_shop = ''shop_1''"
    by (simp add: demo_shop_def)
  ultimately show ?thesis
    by (simp only: if_True snd_conv get_after_log get_after_update simp_thms)
qed

text \<open>
  C10 fails on the code. The mapping does send an unrecognized status to PENDING, and
  lines 159-253 would overwrite an ACTIVE status with it; but the handler throws at
  \<^verbatim>\<open>db.prisma\<close> before it reads or writes a row, so the subscription stays ACTIVE and
  the shop's next settings write keeps its custom colours.
\<close>

theorem C10_unknown_status_keeps_active:
  "newStatus_of ''unforeseen_status'' = Status PENDING \<and>
   POST_app_subscriptions_update ''test_api_secret'' (\<lambda>b. Some (demo_event ''unforeseen_status'')) 5
     (signed ''test_api_secret'' ''{}'') (demo_db ACTIVE) =
   (subscription_update_failed, demo_db ACTIVE) \<and>
   statuses (demo_db ACTIVE) = [(''gid://shopify/AppSubscription/1'', ACTIVE)] \<and>
   statuses (snd (reconcile 5 (signed ''test_api_secret'' ''{}'') (demo_event ''unforeseen_status'')
     (demo_db ACTIVE))) = [(''gid://shopify/AppSubscription/1'', PENDING)] \<and>
   getShopSettings ''shop_1'' ''popup_settings''
     (snd (POST_settings (\<lambda>shop. Inr (Some ''token'')) (\<lambda>b. Some (popup_json demo_settings))
        (\<lambda>u. False) demo_settings_request
        (snd (POST_app_subscriptions_update ''test_api_secret''
                (\<lambda>b. Some (demo_event ''unforeseen_status'')) 5
                (signed ''test_api_secret'' ''{}'') (demo_db ACTIVE))))) =
   Some (PopupSettings demo_settings)"
proof -
  have unknown: "newStatus_of ''unforeseen_status'' = Status PENDING"
    by (simp add: newStatus_of_def statusMapping_def Object_prototype_members_def)
  have before: "statuses (demo_db ACTIVE) = [(''gid://shopify/AppSubscription/1'', ACTIVE)]"
    by (simp add: statuses_def demo_db_def demo_subscription_def)
  have body: "statuses (snd (reconcile 5 (signed ''test_api_secret'' ''{}'')
     (demo_event ''unforeseen_status'') (demo_db ACTIVE))) =
     [(''gid://shopify/AppSubscription/1'', PENDING)]"
    unfolding reconcile_statuses before by (simp add: demo_event_def unknown)
  have handler: "POST_app_subscriptions_update ''test_api_secret''
     (\<lambda>b. Some (demo_event ''unforeseen_status'')) 5
     (signed ''test_api_secret'' ''{}'') (demo_db ACTIVE) =
     (subscription_update_failed, demo_db ACTIVE)"
    by (rule update_webhook_verified) (simp_all add: signed_def)
  show ?thesis
    unfolding handler snd_conv
    using unknown before body demo_settings_write_active by (simp only: simp_thms)
qed

end
